theory Spec2Isabelle
  imports Main "HOL-Library.Sublist"
begin

section \<open>Data model\<close>

text \<open>
  A message is the dictionary \<^verbatim>\<open>{"role": ..., "content": ...}\<close> of the source; the
  role is one of the strings \<open>''system''\<close>, \<open>''user''\<close> and \<open>''assistant''\<close>.
\<close>

record message =
  role :: string
  content :: string

text \<open>
  The exceptions that the program meets: the two that \<^verbatim>\<open>cli\<close> catches, the
  \<^verbatim>\<open>TypeError\<close> and \<^verbatim>\<open>IndexError\<close> that Python itself raises, and
  \<^verbatim>\<open>ResponseError\<close> for a failure of the chat client (network, unknown model).
\<close>

datatype exn = KeyboardInterrupt | EOFError | TypeError | IndexError | ResponseError

text \<open>
  What reaches the terminal, in order: \<^verbatim>\<open>console.print\<close> of a marked-up text, of a
  \<^verbatim>\<open>Markdown\<close> and of a \<^verbatim>\<open>Syntax\<close> renderable, the \<^verbatim>\<open>Status\<close> spinner, and one
  \<^verbatim>\<open>live.update(Markdown(...))\<close> of the live display.
\<close>

datatype printed =
    Print string
  | PrintMarkdown string
  | PrintSyntax string
  | ShowStatus
  | LiveUpdate string

text \<open>
  The value \<^verbatim>\<open>ollama.chat\<close> returns: with \<^verbatim>\<open>stream=False\<close> one dictionary, of which the
  program reads \<^verbatim>\<open>["message"]["content"]\<close> (\<open>Complete\<close>); with \<^verbatim>\<open>stream=True\<close> an
  iterator (\<open>Fragments\<close>). \<open>Fragments cs e\<close> yields chunks whose
  \<^verbatim>\<open>["message"]["content"]\<close> are \<open>cs\<close>, in this order, and then stops (\<open>e = None\<close>) or
  raises (\<open>e = Some x\<close>): an interrupt that arrives while the program waits for the next
  fragment is \<open>Some KeyboardInterrupt\<close>. The iterator is lazy: the call returns it before
  anything is received, so the wait for the first byte of a streamed response is the wait
  for its first fragment, and an interrupt there is \<open>Fragments [] (Some KeyboardInterrupt)\<close>.
\<close>

datatype response = Complete string | Fragments "string list" "exn option"

text \<open>
  The chat client is outside the program: it is a parameter, a function of the arguments
  of \<^verbatim>\<open>ollama.chat(model=..., messages=..., stream=...)\<close> that raises (\<open>Inl\<close>) or
  returns. With \<^verbatim>\<open>stream=False\<close> the call blocks until the response is complete: an
  interrupt during that wait is \<open>Inl KeyboardInterrupt\<close>.
\<close>

type_synonym chat_client = "string \<Rightarrow> message list \<Rightarrow> bool \<Rightarrow> exn + response"

text \<open>The values that \<^verbatim>\<open>cli\<close> passes to \<^verbatim>\<open>ask_ollama\<close>.\<close>

datatype pyval = StrVal string | MsgsVal "message list" | BoolVal bool | ConsoleVal

text \<open>The namespace that \<^verbatim>\<open>parser.parse_args()\<close> returns.\<close>

record args =
  arg_prompt :: "string option"
  arg_model :: string
  arg_no_stream :: bool
  arg_version :: bool

text \<open>
  The local variables of \<^verbatim>\<open>cli\<close> that change while it runs (\<^verbatim>\<open>messages\<close>,
  \<^verbatim>\<open>multiline\<close>), with what the console has shown so far.
\<close>

record session =
  messages :: "message list"
  multiline :: bool
  console :: "printed list"

text \<open>
  What \<^verbatim>\<open>session.prompt\<close> does when the loop asks for a line: it returns the text the
  user entered or raises.
\<close>

datatype prompt_result = Text string | Raises exn

text \<open>
  How a piece of \<^verbatim>\<open>cli\<close> ends: the loop goes on to its next iteration, \<^verbatim>\<open>cli\<close>
  returns an exit code, or an exception leaves \<^verbatim>\<open>cli\<close> uncaught (the process ends
  with a traceback).
\<close>

datatype flow = Continue | Return int | Raise exn

section \<open>String operations\<close>

text \<open>
  A character is a code point below 256. \<open>is_space\<close> is Python's \<^verbatim>\<open>str.isspace\<close> on
  these, the set that \<^verbatim>\<open>str.strip()\<close> removes.
\<close>

definition is_space :: "char \<Rightarrow> bool" where
  "is_space c \<longleftrightarrow> c \<in> set [CHR 0x09, CHR 0x0A, CHR 0x0B, CHR 0x0C, CHR 0x0D,
      CHR 0x1C, CHR 0x1D, CHR 0x1E, CHR 0x1F, CHR 0x20, CHR 0x85, CHR 0xA0]"

text \<open>\<^verbatim>\<open>s.strip()\<close> and \<^verbatim>\<open>s.strip(chars)\<close>: the characters satisfying \<open>P\<close> are removed at both ends.\<close>

definition strip_where :: "(char \<Rightarrow> bool) \<Rightarrow> string \<Rightarrow> string" where
  "strip_where P s = rev (dropWhile P (rev (dropWhile P s)))"

definition strip :: "string \<Rightarrow> string" where
  "strip s = strip_where is_space s"

definition strip_chars :: "string \<Rightarrow> string \<Rightarrow> string" where
  "strip_chars chars s = strip_where (\<lambda>c. c \<in> set chars) s"

text \<open>
  \<^verbatim>\<open>str.lower\<close>: below 256 the upper-case letters are A to Z and the Latin-1 letters
  0xC0 to 0xDE without the multiplication sign 0xD7; each has its lower-case letter 32
  places later.
\<close>

definition lower_char :: "char \<Rightarrow> char" where
  "lower_char c =
     (let n = (of_char c :: nat)
      in if (65 \<le> n \<and> n \<le> 90) \<or> (192 \<le> n \<and> n \<le> 222 \<and> n \<noteq> 215)
         then char_of (n + 32) else c)"

definition lower :: "string \<Rightarrow> string" where
  "lower s = map lower_char s"

text \<open>\<^verbatim>\<open>s.replace(old, new)\<close> for one-character \<open>old\<close> and \<open>new\<close>.\<close>

definition replace :: "char \<Rightarrow> char \<Rightarrow> string \<Rightarrow> string" where
  "replace old new s = map (\<lambda>c. if c = old then new else c) s"

text \<open>\<^verbatim>\<open>ident_prompt = text.lower().strip(" ").replace(" ", "-")\<close>\<close>

definition ident_prompt :: "string \<Rightarrow> string" where
  "ident_prompt text = replace (CHR '' '') (CHR ''-'') (strip_chars '' '' (lower text))"

text \<open>
  The normal form in the words of the specification, for comparison with
  \<open>ident_prompt\<close>: lower-cased, surrounding whitespace removed, each inner space made a
  hyphen.
\<close>

definition spec_normal_form :: "string \<Rightarrow> string" where
  "spec_normal_form text = replace (CHR '' '') (CHR ''-'') (strip (lower text))"

section \<open>The chat exchange\<close>

text \<open>
  The loop \<^verbatim>\<open>for chunk in response: content += chunk_text; live.update(Markdown(content))\<close>
  over the chunks that arrive: it returns the accumulator and the renders made.
\<close>

fun consume :: "string list \<Rightarrow> string \<Rightarrow> string \<times> printed list" where
  "consume [] text = (text, [])"
| "consume (chunk_text # rest) text =
     (let text' = text @ chunk_text;
          (final, renders) = consume rest text'
      in (final, LiveUpdate text' # renders))"

text \<open>
  \<^verbatim>\<open>ask_ollama(model, messages, stream, console)\<close>: what it prints and what it returns
  or raises. An exception of the chat call leaves through the \<^verbatim>\<open>Status\<close> block. In the
  streaming branch only \<^verbatim>\<open>KeyboardInterrupt\<close> is caught, inside the \<^verbatim>\<open>Live\<close> block:
  the notice is printed and the text accumulated so far is returned. A response of the
  other shape than \<open>stream\<close> asks for fails in Python with a \<^verbatim>\<open>TypeError\<close> (subscripting
  an iterator, or a key of the dictionary).
\<close>

definition ask_ollama :: "chat_client \<Rightarrow> string \<Rightarrow> message list \<Rightarrow> bool \<Rightarrow> printed list \<times> (exn + string)" where
  "ask_ollama chat model msgs stream =
     (case chat model msgs stream of
        Inl e \<Rightarrow> ([ShowStatus], Inl e)
      | Inr response \<Rightarrow>
          (let out = [ShowStatus, Print ''\<newline>Response:''] in
           if stream then
             (case response of
                Fragments chunks ending \<Rightarrow>
                  (let (text, renders) = consume chunks '''' in
                   case ending of
                     None \<Rightarrow> (out @ renders, Inr text)
                   | Some e \<Rightarrow>
                       if e = KeyboardInterrupt
                       then (out @ renders @ [Print ''[dim]Interrupted[/dim]''], Inr text)
                       else (out @ renders, Inl e))
              | Complete _ \<Rightarrow> (out, Inl TypeError))
           else
             (case response of
                Complete text \<Rightarrow> (out @ [PrintMarkdown text], Inr text)
              | Fragments _ _ \<Rightarrow> (out, Inl TypeError))))"

text \<open>
  A call of \<^verbatim>\<open>ask_ollama\<close> with positional arguments: Python binds them to the four
  parameters \<^verbatim>\<open>(model, messages, stream, console)\<close> and raises \<^verbatim>\<open>TypeError\<close>, before
  the body runs, when their number is not four. Four arguments of other types than the
  signature's are not passed anywhere in the program; the model gives them the same
  error.
\<close>

definition call_ask_ollama :: "chat_client \<Rightarrow> pyval list \<Rightarrow> printed list \<times> (exn + string)" where
  "call_ask_ollama chat argv =
     (if length argv \<noteq> 4 then ([], Inl TypeError)
      else case argv of
             [StrVal model, MsgsVal msgs, BoolVal stream, ConsoleVal] \<Rightarrow>
               ask_ollama chat model msgs stream
           | _ \<Rightarrow> ([], Inl TypeError))"

section \<open>The command line interface\<close>

text \<open>
  One iteration of \<^verbatim>\<open>while True\<close> in \<^verbatim>\<open>cli\<close>, given what \<^verbatim>\<open>session.prompt\<close> does.
  \<^verbatim>\<open>messages[-1]\<close> raises \<^verbatim>\<open>IndexError\<close> on an empty list.
\<close>

definition loop_body :: "chat_client \<Rightarrow> string \<Rightarrow> bool \<Rightarrow> session \<Rightarrow> prompt_result \<Rightarrow> flow \<times> session" where
  "loop_body chat model stream s p =
     (case p of
        Raises e \<Rightarrow>
          if e = KeyboardInterrupt \<or> e = EOFError then (Return 0, s) else (Raise e, s)
      | Text text \<Rightarrow>
          if strip text = [] then (Continue, s)
          else if ident_prompt text = ''show-markdown'' then
            (if messages s = [] then (Raise IndexError, s)
             else
               (let last_content = content (last (messages s)) in
                (Continue, s\<lparr>console := console s @
                   [Print ''[dim]Last markdown output of last question:[/dim]\<newline>'',
                    PrintSyntax last_content]\<rparr>)))
          else if ident_prompt text = ''multiline'' then
            (let m = \<not> multiline s in
             (Continue, s\<lparr>multiline := m, console := console s @
                [if m
                 then Print ''Enabling multiline mode. [dim]Press [Meta+Enter] or [Esc] followed by [Enter] to accept input.[/dim]''
                 else Print ''Disabling multiline mode.'']\<rparr>))
          else
            (let msgs = messages s @ [\<lparr>role = ''user'', content = text\<rparr>];
                 (out, r) = call_ask_ollama chat
                   [StrVal model, MsgsVal msgs, BoolVal stream, ConsoleVal];
                 s' = s\<lparr>messages := msgs, console := console s @ out\<rparr>
             in case r of
                  Inl e \<Rightarrow> if e = KeyboardInterrupt then (Return 0, s') else (Raise e, s')
                | Inr text' \<Rightarrow>
                    (Continue, s'\<lparr>messages := msgs @ [\<lparr>role = ''assistant'', content = text'\<rparr>]\<rparr>)))"

text \<open>
  The loop over what \<^verbatim>\<open>session.prompt\<close> does at each call. When the list is used up
  the loop is still running, blocked in \<^verbatim>\<open>session.prompt\<close>: the result is
  \<open>Continue\<close> with the session reached.
\<close>

fun interactive :: "chat_client \<Rightarrow> string \<Rightarrow> bool \<Rightarrow> session \<Rightarrow> prompt_result list \<Rightarrow> flow \<times> session" where
  "interactive chat model stream s [] = (Continue, s)"
| "interactive chat model stream s (p # ps) =
     (case loop_body chat model stream s p of
        (Continue, s') \<Rightarrow> interactive chat model stream s' ps
      | (Return n, s') \<Rightarrow> (Return n, s')
      | (Raise e, s') \<Rightarrow> (Raise e, s'))"

definition banner :: printed where
  "banner = Print ''ollama_cli - Ollama powered AI CLI v0.2.0''"

text \<open>
  \<^verbatim>\<open>cli\<close>. \<open>setup\<close> is the system text, which the source builds from the clock and the
  platform. \<^verbatim>\<open>if args.prompt\<close> holds for a prompt that is given and not empty. The
  one-shot branch calls \<^verbatim>\<open>ask_ollama(messages, stream, console)\<close>, with three
  arguments, and catches \<^verbatim>\<open>KeyboardInterrupt\<close> only. With \<^verbatim>\<open>--version\<close> the function
  returns before \<^verbatim>\<open>messages\<close> is bound: the session shown has none.
\<close>

definition cli :: "chat_client \<Rightarrow> string \<Rightarrow> args \<Rightarrow> prompt_result list \<Rightarrow> flow \<times> session" where
  "cli chat setup a inputs =
     (if arg_version a
      then (Return 0, \<lparr>messages = [], multiline = False, console = [banner]\<rparr>)
      else
        (let model = arg_model a;
             stream = \<not> arg_no_stream a;
             msgs = [\<lparr>role = ''system'', content = setup\<rparr>]
         in case arg_prompt a of
              None \<Rightarrow>
                interactive chat model stream
                  \<lparr>messages = msgs, multiline = False, console = [banner]\<rparr> inputs
            | Some p \<Rightarrow>
                if p = [] then
                  interactive chat model stream
                    \<lparr>messages = msgs, multiline = False, console = [banner]\<rparr> inputs
                else
                  (let msgs' = msgs @ [\<lparr>role = ''user'', content = p\<rparr>];
                       (out, r) = call_ask_ollama chat
                         [MsgsVal msgs', BoolVal stream, ConsoleVal];
                       s' = \<lparr>messages = msgs', multiline = False, console = [banner] @ out\<rparr>
                   in case r of
                        Inl e \<Rightarrow> if e = KeyboardInterrupt then (Return 0, s') else (Raise e, s')
                      | Inr _ \<Rightarrow> (Return 0, s'))))"

section \<open>Example runs\<close>


definition one_shot_args :: args where
  "one_shot_args =
     \<lparr>arg_prompt = Some ''hi'', arg_model = ''llama2'', arg_no_stream = False, arg_version = False\<rparr>"

definition fresh_session :: session where
  "fresh_session =
     \<lparr>messages = [\<lparr>role = ''system'', content = ''Help the user.''\<rparr>],
      multiline = False, console = [banner]\<rparr>"

definition hello_chat :: chat_client where
  "hello_chat model msgs stream =
     Inr (if stream then Fragments [''Hel'', ''lo''] None else Complete ''Hello'')"

definition cut_chat :: chat_client where
  "cut_chat model msgs stream = Inr (Fragments [''Hel''] (Some KeyboardInterrupt))"

definition stalled_chat :: chat_client where
  "stalled_chat model msgs stream =
     (if stream then Inr (Fragments [] (Some KeyboardInterrupt)) else Inl KeyboardInterrupt)"

text \<open>The command multiline followed by a tab, as a pasted line may hold it.\<close>

definition padded_command :: string where
  "padded_command = ''multiline'' @ [CHR 0x09]"

section \<open>Auxiliary facts\<close>

lemma call_ask_ollama_four:
  "call_ask_ollama chat [StrVal model, MsgsVal msgs, BoolVal stream, ConsoleVal] =
     ask_ollama chat model msgs stream"
  by (simp add: call_ask_ollama_def)

lemma strip_where_Nil: "strip_where P s = [] \<Longrightarrow> \<forall>c\<in>set s. P c"
proof -
  assume a: "strip_where P s = []"
  have "dropWhile P s = []"
  proof (rule ccontr)
    assume n: "dropWhile P s \<noteq> []"
    then have "\<not> P (hd (dropWhile P s))" by (rule hd_dropWhile)
    moreover from a have "\<forall>x\<in>set (dropWhile P s). P x"
      by (simp add: strip_where_def)
    ultimately show False using n by (meson hd_in_set)
  qed
  then show ?thesis by simp
qed

lemma set_strip_where: "set (strip_where P s) \<subseteq> set s"
proof -
  have "set (strip_where P s) = set (dropWhile P (rev (dropWhile P s)))"
    by (simp add: strip_where_def)
  also have "\<dots> \<subseteq> set (rev (dropWhile P s))" by (meson set_dropWhileD subsetI)
  also have "\<dots> \<subseteq> set s" using set_dropWhileD by fastforce
  finally show ?thesis .
qed

lemma lower_char_space: "is_space c \<Longrightarrow> lower_char c = c"
  by (auto simp add: lower_char_def is_space_def)

lemma ident_prompt_blank:
  assumes "strip text = []"
  shows "\<forall>c\<in>set (ident_prompt text). is_space c \<or> c = CHR ''-''"
proof -
  from assms have sp: "\<forall>c\<in>set text. is_space c"
    by (simp add: strip_def strip_where_Nil)
  then have "lower text = text"
    by (simp add: lower_def lower_char_space map_idI)
  then have "set (strip_chars '' '' (lower text)) \<subseteq> set text"
    by (simp add: strip_chars_def set_strip_where)
  with sp show ?thesis
    by (auto simp add: ident_prompt_def replace_def)
qed

lemma reserved_not_blank:
  assumes "ident_prompt text = ''show-markdown'' \<or> ident_prompt text = ''multiline''"
  shows "strip text \<noteq> []"
proof
  assume "strip text = []"
  then have b: "\<forall>c\<in>set (ident_prompt text). is_space c \<or> c = CHR ''-''"
    by (rule ident_prompt_blank)
  from assms have "CHR ''m'' \<in> set (ident_prompt text)" by auto
  with b have "is_space (CHR ''m'') \<or> CHR ''m'' = CHR ''-''" by blast
  then show False by (simp add: is_space_def)
qed

lemma consume_fst: "fst (consume chunks acc) = acc @ concat chunks"
  by (induction chunks arbitrary: acc) (simp_all add: Let_def case_prod_beta)

lemma consume_snd:
  "snd (consume chunks acc) =
     map (\<lambda>k. LiveUpdate (acc @ concat (take (Suc k) chunks))) [0..<length chunks]"
proof (induction chunks arbitrary: acc)
  case Nil
  then show ?case by simp
next
  case (Cons c cs)
  have "snd (consume (c # cs) acc) = LiveUpdate (acc @ c) # snd (consume cs (acc @ c))"
    by (simp add: Let_def case_prod_beta)
  also have "\<dots> = LiveUpdate (acc @ c) #
      map (\<lambda>k. LiveUpdate ((acc @ c) @ concat (take (Suc k) cs))) [0..<length cs]"
    by (simp only: Cons.IH)
  also have "\<dots> = map (\<lambda>k. LiveUpdate (acc @ concat (take (Suc k) (c # cs)))) [0..<length (c # cs)]"
    by (simp add: map_upt_Suc del: upt_Suc)
  finally show ?case .
qed

lemma interactive_append:
  "interactive chat model stream s ps = (Continue, s') \<Longrightarrow>
   interactive chat model stream s (ps @ qs) = interactive chat model stream s' qs"
proof (induction ps arbitrary: s)
  case Nil
  then show ?case by simp
next
  case (Cons p ps)
  then show ?case
    by (cases "loop_body chat model stream s p"; cases "fst (loop_body chat model stream s p)") auto
qed

lemma strip_blank: "strip [CHR '' '', CHR 0x09] = []"
  by code_simp

lemma loop_body_other:
  assumes "strip text \<noteq> []" "ident_prompt text \<noteq> ''show-markdown''"
    "ident_prompt text \<noteq> ''multiline''"
  shows "loop_body chat model stream s (Text text) =
    (let msgs = messages s @ [\<lparr>role = ''user'', content = text\<rparr>];
         s' = s\<lparr>messages := msgs,
                console := console s @ fst (ask_ollama chat model msgs stream)\<rparr>
     in case snd (ask_ollama chat model msgs stream) of
          Inl e \<Rightarrow> if e = KeyboardInterrupt then (Return 0, s') else (Raise e, s')
        | Inr reply \<Rightarrow>
            (Continue, s'\<lparr>messages := msgs @ [\<lparr>role = ''assistant'', content = reply\<rparr>]\<rparr>))"
  using assms by (simp add: loop_body_def call_ask_ollama_four Let_def case_prod_beta split: sum.splits)

lemma ask_ollama_cut:
  assumes "chat model msgs True = Inr (Fragments chunks (Some KeyboardInterrupt))"
  shows "ask_ollama chat model msgs True =
    ([ShowStatus, Print ''\<newline>Response:''] @ snd (consume chunks []) @
       [Print ''[dim]Interrupted[/dim]''], Inr (concat chunks))"
  using assms consume_fst [of chunks "[]"]
  by (simp add: ask_ollama_def case_prod_beta)

lemma ident_prompt_hi: "ident_prompt ''hi'' = ''hi''"
  by code_simp

lemma strip_hi: "strip ''hi'' = ''hi''"
  by code_simp

lemma tabbed_is_other:
  "strip padded_command \<noteq> []"
  "ident_prompt padded_command \<noteq> ''show-markdown''"
  "ident_prompt padded_command \<noteq> ''multiline''"
  by code_simp+

lemma ident_prompt_multiline: "ident_prompt ''multiline'' = ''multiline''"
  by code_simp

lemma ident_prompt_Multi_Line: "ident_prompt '' MULTILINE'' = ''multiline''"
  by code_simp

lemma ident_prompt_show: "ident_prompt ''Show Markdown'' = ''show-markdown''"
  by code_simp

lemma hi_is_other:
  "strip ''hi'' \<noteq> []" "ident_prompt ''hi'' \<noteq> ''show-markdown''"
  "ident_prompt ''hi'' \<noteq> ''multiline''"
  by (simp_all add: strip_hi ident_prompt_hi)

lemma ask_ollama_hello_stream:
  "ask_ollama hello_chat model msgs True =
     ([ShowStatus, Print ''\<newline>Response:'', LiveUpdate ''Hel'', LiveUpdate ''Hello''], Inr ''Hello'')"
  by (simp add: ask_ollama_def hello_chat_def Let_def)

lemma loop_body_multiline:
  assumes "ident_prompt t = ''multiline''"
  shows "loop_body chat model stream s (Text t) =
    (Continue, s\<lparr>multiline := \<not> multiline s, console := console s @
       [if \<not> multiline s
        then Print ''Enabling multiline mode. [dim]Press [Meta+Enter] or [Esc] followed by [Enter] to accept input.[/dim]''
        else Print ''Disabling multiline mode.'']\<rparr>)"
  using assms reserved_not_blank [of t] by (simp add: loop_body_def Let_def)

lemma loop_body_no_interrupt:
  "fst (loop_body chat model stream s p) \<noteq> Raise KeyboardInterrupt"
  by (cases p)
    (auto simp add: loop_body_def Let_def case_prod_beta split: sum.splits)

lemma interactive_no_interrupt:
  "fst (interactive chat model stream s ps) \<noteq> Raise KeyboardInterrupt"
proof (induction ps arbitrary: s)
  case Nil
  then show ?case by simp
next
  case (Cons p ps)
  show ?case
  proof (cases "loop_body chat model stream s p")
    case (Pair f s')
    with loop_body_no_interrupt [of chat model stream s p] Cons.IH [of s']
    show ?thesis by (cases f) auto
  qed
qed

section \<open>The chat exchange: streaming and non-streaming\<close>

text \<open>
  C5. For every finite sequence of streamed chunks, the streaming exchange returns the
  concatenation of the chunks' texts in arrival order; the accumulators it renders are
  the concatenations of the first one, two, ... chunks, each a prefix of the final text
  and of every later render, and the last render is the final text. For the chunks Hel
  and lo the renders are Hel and Hello and the result is Hello.
\<close>

theorem streaming_renders_prefixes:
  fixes chunks :: "string list"
  defines "renders \<equiv> map (\<lambda>k. concat (take (Suc k) chunks)) [0..<length chunks]"
  assumes "chat model msgs True = Inr (Fragments chunks None)"
  shows "ask_ollama chat model msgs True =
           ([ShowStatus, Print ''\<newline>Response:''] @ map LiveUpdate renders, Inr (concat chunks))
         \<and> (\<forall>r\<in>set renders. prefix r (concat chunks))
         \<and> (\<forall>i j. i \<le> j \<and> j < length renders \<longrightarrow> prefix (renders ! i) (renders ! j))
         \<and> (chunks \<noteq> [] \<longrightarrow> last renders = concat chunks)"
proof -
  have c: "consume chunks [] = (concat chunks, map LiveUpdate renders)"
    using consume_fst [of chunks "[]"] consume_snd [of chunks "[]"]
    by (simp add: renders_def prod_eq_iff comp_def)
  have 1: "ask_ollama chat model msgs True =
           ([ShowStatus, Print ''\<newline>Response:''] @ map LiveUpdate renders, Inr (concat chunks))"
    using assms(2) c by (simp add: ask_ollama_def)
  have pre: "prefix (concat (take m chunks)) (concat (take n chunks))" if "m \<le> n" for m n
  proof -
    from that have "take n chunks = take m chunks @ take (n - m) (drop m chunks)"
      by (metis le_add_diff_inverse take_add)
    then show ?thesis by simp
  qed
  have 2: "\<forall>r\<in>set renders. prefix r (concat chunks)"
  proof
    fix r assume "r \<in> set renders"
    then obtain k where "r = concat (take (Suc k) chunks)" by (auto simp add: renders_def)
    moreover have "prefix (concat (take (Suc k) chunks)) (concat (take (length chunks) chunks))"
      by (metis take_all_iff pre nle_le order_refl)
    ultimately show "prefix r (concat chunks)" by simp
  qed
  have 3: "\<forall>i j. i \<le> j \<and> j < length renders \<longrightarrow> prefix (renders ! i) (renders ! j)"
    by (auto simp add: renders_def pre simp del: take_Suc_Cons)
  have 4: "chunks \<noteq> [] \<longrightarrow> last renders = concat chunks"
    by (cases chunks rule: rev_cases) (auto simp add: renders_def)
  from 1 2 3 4 show ?thesis by blast
qed

theorem streaming_renders_prefixes_witness:
  "hello_chat ''llama2'' (messages fresh_session) True = Inr (Fragments [''Hel'', ''lo''] None) \<and>
   ask_ollama hello_chat ''llama2'' (messages fresh_session) True =
     ([ShowStatus, Print ''\<newline>Response:'', LiveUpdate ''Hel'', LiveUpdate ''Hello''], Inr ''Hello'') \<and>
   prefix ''Hel'' ''Hello''"
proof -
  have h: "hello_chat ''llama2'' (messages fresh_session) True = Inr (Fragments [''Hel'', ''lo''] None)"
    by (simp add: hello_chat_def)
  have u: "[0..<2] = [0, Suc 0]" by (simp add: upt_rec)
  from h streaming_renders_prefixes [of hello_chat "''llama2''" "messages fresh_session" "[''Hel'', ''lo'']"]
  show ?thesis by (simp add: u)
qed

text \<open>
  C6. For every non-streaming exchange the complete response text is rendered exactly
  once, as markdown, and returned unchanged: after the status indicator and the response
  header the only output is one markdown render of the text.
\<close>

theorem non_streaming_renders_once:
  assumes "chat model msgs False = Inr (Complete reply)"
  shows "ask_ollama chat model msgs False =
    ([ShowStatus, Print ''\<newline>Response:'', PrintMarkdown reply], Inr reply)"
  using assms by (simp add: ask_ollama_def)

theorem non_streaming_renders_once_witness:
  "hello_chat ''llama2'' (messages fresh_session) False = Inr (Complete ''Hello'') \<and>
   ask_ollama hello_chat ''llama2'' (messages fresh_session) False =
     ([ShowStatus, Print ''\<newline>Response:'', PrintMarkdown ''Hello''], Inr ''Hello'')"
proof -
  have h: "hello_chat ''llama2'' (messages fresh_session) False = Inr (Complete ''Hello'')"
    by (simp add: hello_chat_def)
  from h non_streaming_renders_once [of hello_chat "''llama2''" "messages fresh_session" "''Hello''"]
  show ?thesis by simp
qed

section \<open>One-shot mode\<close>

text \<open>
  C1. With a one-shot prompt the program should make one exchange and return 0. The
  source calls \<^verbatim>\<open>ask_ollama(messages, stream, console)\<close> without the model: for the
  prompt hi the call raises \<^verbatim>\<open>TypeError\<close> before the chat client is asked, the handler
  for \<^verbatim>\<open>KeyboardInterrupt\<close> does not catch it, and \<^verbatim>\<open>cli\<close> ends with that exception
  after printing the banner only.
\<close>

theorem one_shot_raises_type_error:
  "cli chat setup one_shot_args inputs =
     (Raise TypeError,
      \<lparr>messages = [\<lparr>role = ''system'', content = setup\<rparr>, \<lparr>role = ''user'', content = ''hi''\<rparr>],
       multiline = False, console = [banner]\<rparr>)"
  by (simp add: cli_def one_shot_args_def call_ask_ollama_def)

section \<open>The interactive loop\<close>

text \<open>
  C8. The interactive loop ends with exit code 0 whenever end-of-input is reached or the
  interrupt is raised while the program awaits a new line: the iteration returns 0 with
  the session as it is, and so does the loop after any lines that left it awaiting input.
\<close>

theorem loop_ends_on_eof_or_interrupt:
  "loop_body chat model stream s (Raises EOFError) = (Return 0, s) \<and>
   loop_body chat model stream s (Raises KeyboardInterrupt) = (Return 0, s) \<and>
   (interactive chat model stream s ps = (Continue, s') \<longrightarrow>
      interactive chat model stream s (ps @ [Raises EOFError]) = (Return 0, s') \<and>
      interactive chat model stream s (ps @ [Raises KeyboardInterrupt]) = (Return 0, s'))"
  by (simp add: interactive_append loop_body_def)

theorem loop_ends_on_eof_or_interrupt_witness:
  "interactive hello_chat ''llama2'' True fresh_session [Text [CHR '' '', CHR 0x09]] =
     (Continue, fresh_session) \<and>
   interactive hello_chat ''llama2'' True fresh_session
     ([Text [CHR '' '', CHR 0x09]] @ [Raises EOFError]) = (Return 0, fresh_session) \<and>
   interactive hello_chat ''llama2'' True fresh_session
     ([Text [CHR '' '', CHR 0x09]] @ [Raises KeyboardInterrupt]) = (Return 0, fresh_session)"
proof -
  have h: "interactive hello_chat ''llama2'' True fresh_session [Text [CHR '' '', CHR 0x09]] =
     (Continue, fresh_session)"
    by (simp add: loop_body_def strip_blank)
  from h loop_ends_on_eof_or_interrupt [of hello_chat "''llama2''" True fresh_session
      "[Text [CHR '' '', CHR 0x09]]" fresh_session]
  show ?thesis by blast
qed

text \<open>
  C3. The claim as stated, with surrounding whitespace removed, fails: the line
  multiline followed by a tab has the normal form multiline in the claim's words, but
  the loop strips space characters only, does not recognise the command, and sends the
  line to the chat client, so that the conversation grows by a user and an assistant
  message.
\<close>

theorem whitespace_padded_command_is_sent:
  "spec_normal_form padded_command = ''multiline'' \<and>
   messages (snd (loop_body hello_chat ''llama2'' True fresh_session
       (Text padded_command))) =
     [\<lparr>role = ''system'', content = ''Help the user.''\<rparr>,
      \<lparr>role = ''user'', content = padded_command\<rparr>,
      \<lparr>role = ''assistant'', content = ''Hello''\<rparr>]"
proof -
  have n: "spec_normal_form padded_command = ''multiline''"
    by code_simp
  have "messages (snd (loop_body hello_chat ''llama2'' True fresh_session
       (Text padded_command))) =
     [\<lparr>role = ''system'', content = ''Help the user.''\<rparr>,
      \<lparr>role = ''user'', content = padded_command\<rparr>,
      \<lparr>role = ''assistant'', content = ''Hello''\<rparr>]"
    by (simp add: loop_body_other [OF tabbed_is_other] ask_ollama_def hello_chat_def
        fresh_session_def Let_def)
  with n show ?thesis by simp
qed

text \<open>
  C3, amended. For every input line whose \<open>ident_prompt\<close> (lower-cased, surrounding
  space characters removed, each remaining space made a hyphen) equals show-markdown or
  multiline, processing the line leaves the message list of the conversation unchanged.
\<close>

theorem reserved_commands_keep_messages:
  assumes "ident_prompt text = ''show-markdown'' \<or> ident_prompt text = ''multiline''"
  shows "messages (snd (loop_body chat model stream s (Text text))) = messages s"
  using assms reserved_not_blank [OF assms]
  by (auto simp add: loop_body_def Let_def)

theorem reserved_commands_keep_messages_witness:
  "ident_prompt ''Show Markdown'' = ''show-markdown'' \<and>
   messages (snd (loop_body hello_chat ''llama2'' True fresh_session (Text ''Show Markdown''))) =
     messages fresh_session"
proof -
  have a: "ident_prompt ''Show Markdown'' = ''show-markdown'' \<or>
     ident_prompt ''Show Markdown'' = ''multiline''"
    by (simp add: ident_prompt_show)
  from reserved_commands_keep_messages [OF a] show ?thesis
    by (simp add: ident_prompt_show)
qed

text \<open>
  C4. For every input that is not blank and is not recognised as one of the two reserved
  commands, the iteration appends exactly one user message with the text entered and
  then, when the exchange returns a text, exactly one assistant message with it, and the
  loop continues; when the exchange raises, the user message alone has been appended. A
  blank (whitespace-only) input changes nothing and the loop continues.
\<close>

theorem other_input_appends_user_then_assistant:
  fixes s :: session
  defines "user_msg \<equiv> \<lambda>text. \<lparr>role = ''user'', content = text\<rparr>"
  shows "(strip text = [] \<longrightarrow> loop_body chat model stream s (Text text) = (Continue, s)) \<and>
   (strip text \<noteq> [] \<and> ident_prompt text \<noteq> ''show-markdown'' \<and>
    ident_prompt text \<noteq> ''multiline'' \<longrightarrow>
      (case snd (ask_ollama chat model (messages s @ [user_msg text]) stream) of
         Inr reply \<Rightarrow>
           fst (loop_body chat model stream s (Text text)) = Continue \<and>
           messages (snd (loop_body chat model stream s (Text text))) =
             messages s @ [user_msg text, \<lparr>role = ''assistant'', content = reply\<rparr>]
       | Inl e \<Rightarrow>
           fst (loop_body chat model stream s (Text text)) \<noteq> Continue \<and>
           messages (snd (loop_body chat model stream s (Text text))) =
             messages s @ [user_msg text]))"
proof -
  have 1: "strip text = [] \<longrightarrow> loop_body chat model stream s (Text text) = (Continue, s)"
    by (simp add: loop_body_def)
  have 2: "strip text \<noteq> [] \<and> ident_prompt text \<noteq> ''show-markdown'' \<and>
    ident_prompt text \<noteq> ''multiline'' \<longrightarrow>
      (case snd (ask_ollama chat model (messages s @ [user_msg text]) stream) of
         Inr reply \<Rightarrow>
           fst (loop_body chat model stream s (Text text)) = Continue \<and>
           messages (snd (loop_body chat model stream s (Text text))) =
             messages s @ [user_msg text, \<lparr>role = ''assistant'', content = reply\<rparr>]
       | Inl e \<Rightarrow>
           fst (loop_body chat model stream s (Text text)) \<noteq> Continue \<and>
           messages (snd (loop_body chat model stream s (Text text))) =
             messages s @ [user_msg text])"
    by (simp add: loop_body_other user_msg_def Let_def split: sum.splits)
  from 1 2 show ?thesis by blast
qed

theorem other_input_appends_user_then_assistant_witness:
  "loop_body hello_chat ''llama2'' True fresh_session (Text [CHR '' '', CHR 0x09]) =
     (Continue, fresh_session) \<and>
   fst (loop_body hello_chat ''llama2'' True fresh_session (Text ''hi'')) = Continue \<and>
   messages (snd (loop_body hello_chat ''llama2'' True fresh_session (Text ''hi''))) =
     [\<lparr>role = ''system'', content = ''Help the user.''\<rparr>,
      \<lparr>role = ''user'', content = ''hi''\<rparr>, \<lparr>role = ''assistant'', content = ''Hello''\<rparr>]"
proof -
  from other_input_appends_user_then_assistant
    [of "[CHR '' '', CHR 0x09]" hello_chat "''llama2''" True fresh_session]
  have a: "loop_body hello_chat ''llama2'' True fresh_session (Text [CHR '' '', CHR 0x09]) =
     (Continue, fresh_session)"
    using strip_blank by blast
  from other_input_appends_user_then_assistant
    [of "''hi''" hello_chat "''llama2''" True fresh_session] hi_is_other
  have b: "fst (loop_body hello_chat ''llama2'' True fresh_session (Text ''hi'')) = Continue \<and>
   messages (snd (loop_body hello_chat ''llama2'' True fresh_session (Text ''hi''))) =
     [\<lparr>role = ''system'', content = ''Help the user.''\<rparr>,
      \<lparr>role = ''user'', content = ''hi''\<rparr>, \<lparr>role = ''assistant'', content = ''Hello''\<rparr>]"
    by (simp add: ask_ollama_hello_stream fresh_session_def)
  from a b show ?thesis by blast
qed

text \<open>
  C7. Two multiline commands in succession bring the multiline flag back to its value:
  the first one flips it, and after the second the session differs from the one before
  only by the two notices printed on the console.
\<close>

theorem multiline_twice_restores_flag:
  assumes "ident_prompt t1 = ''multiline''" and "ident_prompt t2 = ''multiline''"
  shows "multiline (snd (loop_body chat model stream s (Text t1))) = (\<not> multiline s) \<and>
    (\<exists>notices. interactive chat model stream s [Text t1, Text t2] =
       (Continue, s\<lparr>console := console s @ notices\<rparr>))"
  by (auto simp add: loop_body_multiline [OF assms(1)] loop_body_multiline [OF assms(2)])

theorem multiline_twice_restores_flag_witness:
  "ident_prompt '' MULTILINE'' = ''multiline'' \<and> ident_prompt ''multiline'' = ''multiline'' \<and>
   multiline (snd (loop_body hello_chat ''llama2'' True fresh_session (Text '' MULTILINE''))) \<and>
   (\<exists>notices. interactive hello_chat ''llama2'' True fresh_session
        [Text '' MULTILINE'', Text ''multiline''] =
       (Continue, fresh_session\<lparr>console := console fresh_session @ notices\<rparr>))"
  using multiline_twice_restores_flag [OF ident_prompt_Multi_Line ident_prompt_multiline,
      of hello_chat "''llama2''" True fresh_session]
  by (simp add: ident_prompt_Multi_Line ident_prompt_multiline fresh_session_def)



section \<open>Interrupts\<close>

text \<open>
  C2. The claim as stated fails: a streaming exchange interrupted after the fragment Hel
  returns the partial text, and the loop appends it to the conversation as an assistant
  message.
\<close>

theorem interrupted_stream_appends_assistant:
  "messages (snd (loop_body cut_chat ''llama2'' True fresh_session (Text ''hi''))) =
     [\<lparr>role = ''system'', content = ''Help the user.''\<rparr>,
      \<lparr>role = ''user'', content = ''hi''\<rparr>, \<lparr>role = ''assistant'', content = ''Hel''\<rparr>]"
  by (simp add: loop_body_other [OF hi_is_other] ask_ollama_def cut_chat_def fresh_session_def
      Let_def)

text \<open>
  C2, amended. For every streaming exchange in the interactive loop that is interrupted
  while fragments are consumed, the exchange prints the notice and returns the text
  accumulated so far (the concatenation of the fragments received); the loop appends it
  to the conversation as the assistant message of that turn and continues.
\<close>

theorem interrupted_stream_text_is_kept:
  assumes "strip text \<noteq> []"
    and "ident_prompt text \<noteq> ''show-markdown''"
    and "ident_prompt text \<noteq> ''multiline''"
    and "chat model (messages s @ [\<lparr>role = ''user'', content = text\<rparr>]) True =
           Inr (Fragments chunks (Some KeyboardInterrupt))"
  shows "loop_body chat model True s (Text text) =
    (Continue,
     s\<lparr>messages := messages s @
          [\<lparr>role = ''user'', content = text\<rparr>, \<lparr>role = ''assistant'', content = concat chunks\<rparr>],
        console := console s @ [ShowStatus, Print ''\<newline>Response:''] @
          snd (consume chunks []) @ [Print ''[dim]Interrupted[/dim]'']\<rparr>)"
proof -
  note cut = ask_ollama_cut [of chat model "messages s @ [\<lparr>role = ''user'', content = text\<rparr>]" chunks, OF assms(4)]
  show ?thesis
    by (simp add: loop_body_other [OF assms(1-3)] cut)
qed

theorem interrupted_stream_text_is_kept_witness:
  "strip ''hi'' \<noteq> [] \<and> ident_prompt ''hi'' \<noteq> ''show-markdown'' \<and>
   ident_prompt ''hi'' \<noteq> ''multiline'' \<and>
   loop_body cut_chat ''llama2'' True fresh_session (Text ''hi'') =
    (Continue,
     \<lparr>messages = [\<lparr>role = ''system'', content = ''Help the user.''\<rparr>,
          \<lparr>role = ''user'', content = ''hi''\<rparr>, \<lparr>role = ''assistant'', content = ''Hel''\<rparr>],
      multiline = False,
      console = [banner, ShowStatus, Print ''\<newline>Response:'', LiveUpdate ''Hel'',
          Print ''[dim]Interrupted[/dim]'']\<rparr>)"
proof -
  have d: "cut_chat ''llama2'' (messages fresh_session @ [\<lparr>role = ''user'', content = ''hi''\<rparr>]) True =
           Inr (Fragments [''Hel''] (Some KeyboardInterrupt))"
    by (simp add: cut_chat_def)
  from hi_is_other
    interrupted_stream_text_is_kept [of "''hi''" cut_chat "''llama2''" fresh_session "[''Hel'']",
      OF hi_is_other d]
  show ?thesis by (simp add: fresh_session_def Let_def)
qed

text \<open>
  C9. The claim as stated fails: an interrupt while a line is read does not bring control
  back to the loop, and neither does one that the chat call itself raises, as it does
  without streaming while it waits for the response. \<^verbatim>\<open>cli\<close> returns 0 and the lines
  that follow are never read.
\<close>

theorem interrupt_ends_the_loop:
  "interactive hello_chat ''llama2'' True fresh_session [Raises KeyboardInterrupt, Text ''hi''] =
     (Return 0, fresh_session) \<and>
   fst (interactive stalled_chat ''llama2'' False fresh_session [Text ''hi'', Text ''hi'']) = Return 0"
  by (simp add: loop_body_other [OF hi_is_other] ask_ollama_def stalled_chat_def)
    (simp add: loop_body_def)

text \<open>
  C9, amended. In the interactive loop no interrupt escapes as an unhandled exception.
  An interrupt while a line is read ends the program with exit code 0, and so does an
  interrupt that the chat call itself raises: without streaming that is the wait for the
  response. With streaming the call returns a lazy iterator, and the wait for the first
  byte, like the wait for every later fragment, happens while the fragments are
  consumed: the interrupt is absorbed by the exchange, which returns the text received
  so far (the empty text when nothing has arrived), the loop appends it as the assistant
  message and goes on to its next iteration.
\<close>

theorem interrupt_is_absorbed:
  fixes s :: session
  defines "msgs \<equiv> \<lambda>t. messages s @ [\<lparr>role = ''user'', content = t\<rparr>]"
  shows "loop_body chat model stream s (Raises KeyboardInterrupt) = (Return 0, s) \<and>
   (strip t \<noteq> [] \<and> ident_prompt t \<noteq> ''show-markdown'' \<and> ident_prompt t \<noteq> ''multiline'' \<longrightarrow>
      (chat model (msgs t) stream = Inl KeyboardInterrupt \<longrightarrow>
         loop_body chat model stream s (Text t) =
           (Return 0, s\<lparr>messages := msgs t, console := console s @ [ShowStatus]\<rparr>)) \<and>
      (chat model (msgs t) True = Inr (Fragments [] (Some KeyboardInterrupt)) \<longrightarrow>
         loop_body chat model True s (Text t) =
           (Continue,
            s\<lparr>messages := msgs t @ [\<lparr>role = ''assistant'', content = []\<rparr>],
              console := console s @ [ShowStatus, Print ''\<newline>Response:'',
                Print ''[dim]Interrupted[/dim]'']\<rparr>)) \<and>
      (chat model (msgs t) True = Inr (Fragments chunks (Some KeyboardInterrupt)) \<longrightarrow>
         fst (loop_body chat model True s (Text t)) = Continue \<and>
         messages (snd (loop_body chat model True s (Text t))) =
           msgs t @ [\<lparr>role = ''assistant'', content = concat chunks\<rparr>])) \<and>
   fst (loop_body chat model stream s p) \<noteq> Raise KeyboardInterrupt \<and>
   fst (interactive chat model stream s ps) \<noteq> Raise KeyboardInterrupt"
proof -
  have 1: "loop_body chat model stream s (Raises KeyboardInterrupt) = (Return 0, s)"
    by (simp add: loop_body_def)
  have 2: "loop_body chat model stream s (Text t) =
      (Return 0, s\<lparr>messages := msgs t, console := console s @ [ShowStatus]\<rparr>)"
    if "strip t \<noteq> []" "ident_prompt t \<noteq> ''show-markdown''" "ident_prompt t \<noteq> ''multiline''"
      "chat model (msgs t) stream = Inl KeyboardInterrupt"
    using that(4) by (simp add: loop_body_other [OF that(1-3)] ask_ollama_def msgs_def)
  have 3: "loop_body chat model True s (Text t) =
      (Continue,
       s\<lparr>messages := msgs t @ [\<lparr>role = ''assistant'', content = []\<rparr>],
         console := console s @ [ShowStatus, Print ''\<newline>Response:'',
           Print ''[dim]Interrupted[/dim]'']\<rparr>)"
    if "strip t \<noteq> []" "ident_prompt t \<noteq> ''show-markdown''" "ident_prompt t \<noteq> ''multiline''"
      "chat model (msgs t) True = Inr (Fragments [] (Some KeyboardInterrupt))"
    using that(4) by (simp add: loop_body_other [OF that(1-3)] ask_ollama_def msgs_def)
  have 4: "fst (loop_body chat model True s (Text t)) = Continue \<and>
      messages (snd (loop_body chat model True s (Text t))) =
        msgs t @ [\<lparr>role = ''assistant'', content = concat chunks\<rparr>]"
    if "strip t \<noteq> []" "ident_prompt t \<noteq> ''show-markdown''" "ident_prompt t \<noteq> ''multiline''"
      "chat model (msgs t) True = Inr (Fragments chunks (Some KeyboardInterrupt))"
  proof -
    from that(4) have "ask_ollama chat model (messages s @ [\<lparr>role = ''user'', content = t\<rparr>]) True =
      ([ShowStatus, Print ''\<newline>Response:''] @ snd (consume chunks []) @
         [Print ''[dim]Interrupted[/dim]''], Inr (concat chunks))"
      unfolding msgs_def by (rule ask_ollama_cut)
    then show ?thesis
      by (simp add: loop_body_other [OF that(1-3)] msgs_def)
  qed
  from 1 2 3 4 loop_body_no_interrupt interactive_no_interrupt show ?thesis by blast
qed

theorem interrupt_is_absorbed_witness:
  "loop_body stalled_chat ''llama2'' False fresh_session (Raises KeyboardInterrupt) =
     (Return 0, fresh_session) \<and>
   fst (loop_body stalled_chat ''llama2'' False fresh_session (Text ''hi'')) = Return 0 \<and>
   loop_body stalled_chat ''llama2'' True fresh_session (Text ''hi'') =
     (Continue,
      \<lparr>messages = [\<lparr>role = ''system'', content = ''Help the user.''\<rparr>,
         \<lparr>role = ''user'', content = ''hi''\<rparr>, \<lparr>role = ''assistant'', content = []\<rparr>],
       multiline = False,
       console = [banner, ShowStatus, Print ''\<newline>Response:'',
         Print ''[dim]Interrupted[/dim]'']\<rparr>) \<and>
   messages (snd (loop_body cut_chat ''llama2'' True fresh_session (Text ''hi''))) =
     [\<lparr>role = ''system'', content = ''Help the user.''\<rparr>,
      \<lparr>role = ''user'', content = ''hi''\<rparr>, \<lparr>role = ''assistant'', content = ''Hel''\<rparr>]"
proof -
  have a: "stalled_chat ''llama2'' (messages fresh_session @ [\<lparr>role = ''user'', content = ''hi''\<rparr>]) False =
     Inl KeyboardInterrupt"
    by (simp add: stalled_chat_def)
  have b: "stalled_chat ''llama2'' (messages fresh_session @ [\<lparr>role = ''user'', content = ''hi''\<rparr>]) True =
     Inr (Fragments [] (Some KeyboardInterrupt))"
    by (simp add: stalled_chat_def)
  have c: "cut_chat ''llama2'' (messages fresh_session @ [\<lparr>role = ''user'', content = ''hi''\<rparr>]) True =
     Inr (Fragments [''Hel''] (Some KeyboardInterrupt))"
    by (simp add: cut_chat_def)
  from a hi_is_other
    interrupt_is_absorbed [of stalled_chat "''llama2''" False fresh_session "''hi''"]
  have 1: "loop_body stalled_chat ''llama2'' False fresh_session (Raises KeyboardInterrupt) =
     (Return 0, fresh_session) \<and>
   fst (loop_body stalled_chat ''llama2'' False fresh_session (Text ''hi'')) = Return 0"
    by simp
  from b hi_is_other
    interrupt_is_absorbed [of stalled_chat "''llama2''" True fresh_session "''hi''"]
  have 2: "loop_body stalled_chat ''llama2'' True fresh_session (Text ''hi'') =
     (Continue,
      \<lparr>messages = [\<lparr>role = ''system'', content = ''Help the user.''\<rparr>,
         \<lparr>role = ''user'', content = ''hi''\<rparr>, \<lparr>role = ''assistant'', content = []\<rparr>],
       multiline = False,
       console = [banner, ShowStatus, Print ''\<newline>Response:'',
         Print ''[dim]Interrupted[/dim]'']\<rparr>)"
    by (simp add: fresh_session_def)
  from c hi_is_other
    interrupt_is_absorbed [of cut_chat "''llama2''" True fresh_session "''hi''" "[''Hel'']"]
  have 3: "messages (snd (loop_body cut_chat ''llama2'' True fresh_session (Text ''hi''))) =
     [\<lparr>role = ''system'', content = ''Help the user.''\<rparr>,
      \<lparr>role = ''user'', content = ''hi''\<rparr>, \<lparr>role = ''assistant'', content = ''Hel''\<rparr>]"
    by (simp add: fresh_session_def)
  from 1 2 3 show ?thesis by blast
qed

end
